theory Spec2Isabelle
  imports Complex_Main "HOL-Library.Monad_Syntax"
begin

section \<open>JavaScript values and errors\<close>

text \<open>
  The functions of \<^verbatim>\<open>App.js\<close> raise nothing themselves apart from
  \<^verbatim>\<open>throw new Error('City not found')\<close>; every other failure is the engine's
  \<^verbatim>\<open>TypeError\<close> for a property read on \<^verbatim>\<open>undefined\<close> or \<^verbatim>\<open>null\<close>, or a
  rejected promise. An error carries its \<^verbatim>\<open>message\<close>, which the controller
  stores; the wording of an engine \<^verbatim>\<open>TypeError\<close> is not fixed by the source, so
  the models below give it a description of the failing read.
\<close>

datatype js_error = Error string | TypeError string

fun message :: "js_error \<Rightarrow> string" where
  "message (Error m) = m"
| "message (TypeError m) = m"

text \<open>
  \<^verbatim>\<open>String.prototype.includes\<close>: the argument occurs in the receiver as a
  contiguous run of characters.
\<close>

fun startsWith :: "string \<Rightarrow> string \<Rightarrow> bool" where
  "startsWith s [] = True"
| "startsWith [] (c # cs) = False"
| "startsWith (d # ds) (c # cs) = (d = c \<and> startsWith ds cs)"

fun includes_str :: "string \<Rightarrow> string \<Rightarrow> bool" where
  "includes_str [] sub = (sub = [])"
| "includes_str (d # ds) sub = (startsWith (d # ds) sub \<or> includes_str ds sub)"

section \<open>Data model\<close>

text \<open>
  The provider's payload, restricted to the fields the functions below read. A field that
  is absent (JavaScript \<^verbatim>\<open>undefined\<close>) is \<open>None\<close>. \<open>id'\<close> is the payload's
  \<^verbatim>\<open>weather[0].id\<close>, the condition code.
\<close>

record weather_entry =
  icon :: "string option"
  id' :: "int option"

record coords =
  lat :: real
  lon :: real

record weather_data =
  weather :: "weather_entry list option"
  coord :: "coords option"
  name :: "string option"

text \<open>A snapshot as the controller holds it: \<open>None\<close> is \<^verbatim>\<open>null\<close>.\<close>

type_synonym snapshot = "weather_data option"

record theme_t =
  background :: string
  cardBg :: string
  accent :: string

definition WEATHER_THEMES :: "(string \<times> theme_t) list" where
  "WEATHER_THEMES =
    [(''thunderstorm'',
        \<lparr>background = ''#0a0814'', cardBg = ''rgba(255, 255, 255, 0.08)'', accent = ''#9D7BD8''\<rparr>),
     (''rain'',
        \<lparr>background = ''#0f0f1a'', cardBg = ''rgba(255, 255, 255, 0.08)'', accent = ''#6B8DD6''\<rparr>),
     (''snow'',
        \<lparr>background = ''#3a4a5a'', cardBg = ''rgba(255, 255, 255, 0.1)'', accent = ''#A8D5E5''\<rparr>),
     (''cloudy'',
        \<lparr>background = ''#2d3a4a'', cardBg = ''rgba(255, 255, 255, 0.08)'', accent = ''#8EAEC4''\<rparr>),
     (''sunny'',
        \<lparr>background = ''#4A90A4'', cardBg = ''rgba(255, 255, 255, 0.15)'', accent = ''#FFD93D''\<rparr>),
     (''night'',
        \<lparr>background = ''#0a0a1a'', cardBg = ''rgba(255, 255, 255, 0.06)'', accent = ''#C9B8FF''\<rparr>),
     (''default'',
        \<lparr>background = ''#1a2a3a'', cardBg = ''rgba(255, 255, 255, 0.08)'', accent = ''#64B5F6''\<rparr>)]"

section \<open>The weather classifier\<close>

text \<open>
  \<^verbatim>\<open>getWeatherType\<close>. The guard \<^verbatim>\<open>!weatherData\<close> catches \<^verbatim>\<open>null\<close> only (an object
  is truthy). After it the function reads \<^verbatim>\<open>weatherData.weather[0].icon\<close> and
  \<^verbatim>\<open>weatherData.weather[0].id\<close> and calls \<^verbatim>\<open>iconCode.includes('n')\<close>: each read on
  \<^verbatim>\<open>undefined\<close> is a \<^verbatim>\<open>TypeError\<close>. An absent \<^verbatim>\<open>id\<close> raises nothing: every
  comparison with \<^verbatim>\<open>undefined\<close> is false, so it falls through to the last line.
\<close>

definition getWeatherType :: "snapshot \<Rightarrow> js_error + string" where
  "getWeatherType weatherData =
    (case weatherData of
       None \<Rightarrow> Inr ''default''
     | Some d \<Rightarrow>
        (case weather d of
           None \<Rightarrow> Inl (TypeError ''weatherData.weather is undefined'')
         | Some [] \<Rightarrow> Inl (TypeError ''weatherData.weather[0] is undefined'')
         | Some (w # ws) \<Rightarrow>
            (case icon w of
               None \<Rightarrow> Inl (TypeError ''iconCode is undefined'')
             | Some iconCode \<Rightarrow>
                (let isNight = includes_str iconCode ''n'' in
                 case id' w of
                   None \<Rightarrow> Inr (if isNight then ''night'' else ''default'')
                 | Some weatherId \<Rightarrow>
                    Inr (if weatherId \<ge> 200 \<and> weatherId < 300 then ''thunderstorm''
                         else if weatherId \<ge> 300 \<and> weatherId < 600 then ''rain''
                         else if weatherId \<ge> 600 \<and> weatherId < 700 then ''snow''
                         else if weatherId \<ge> 801 \<and> weatherId \<le> 804
                           then (if isNight then ''night'' else ''cloudy'')
                         else if weatherId = 800
                           then (if isNight then ''night'' else ''sunny'')
                         else if weatherId \<ge> 700 \<and> weatherId < 800 then ''cloudy''
                         else (if isNight then ''night'' else ''default''))))))"

text \<open>
  A well-formed snapshot: one weather entry carrying the condition code and the icon
  code.
\<close>

definition mkSnapshot :: "int \<Rightarrow> string \<Rightarrow> snapshot" where
  "mkSnapshot code iconCode =
    Some \<lparr>weather = Some [\<lparr>icon = Some iconCode, id' = Some code\<rparr>], coord = None, name = None\<rparr>"

text \<open>The seven tags of the theme table.\<close>

definition weatherTypes :: "string list" where
  "weatherTypes =
    [''thunderstorm'', ''rain'', ''snow'', ''cloudy'', ''sunny'', ''night'', ''default'']"

text \<open>
  The provider's icon codes are two digits followed by \<^verbatim>\<open>d\<close> or \<^verbatim>\<open>n\<close>
  (\<^verbatim>\<open>'01d'\<close>, \<^verbatim>\<open>'10n'\<close>, as the source's own comment gives them).
\<close>

definition isDigit :: "char \<Rightarrow> bool" where
  "isDigit c = (c \<in> set ''0123456789'')"

definition providerIcon :: "string \<Rightarrow> bool" where
  "providerIcon s =
    (case s of
       [a, b, c] \<Rightarrow> isDigit a \<and> isDigit b \<and> (c = CHR ''d'' \<or> c = CHR ''n'')
     | _ \<Rightarrow> False)"

section \<open>Derived metrics\<close>

text \<open>
  A JavaScript number is an IEEE double. The wind direction and the UV bucket are
  modelled over the reals: the one quotient \<^verbatim>\<open>degrees / 45\<close> is rounded to an integer
  at once and the UV index is only compared. The temperature conversion and the dew
  point chain several operations, each of which rounds, so they are modelled over
  doubles (next section).

  \<^verbatim>\<open>Math.round\<close> returns the integer closest to its argument, the larger one on a
  tie; on a double it is exact. \<^verbatim>\<open>%\<close> is the remainder of the truncating division:
  it has the sign of the dividend.
\<close>

definition Math_round :: "real \<Rightarrow> int" where
  "Math_round x = (if x - of_int \<lfloor>x\<rfloor> < 1 / 2 then \<lfloor>x\<rfloor> else \<lfloor>x\<rfloor> + 1)"

definition js_rem :: "int \<Rightarrow> int \<Rightarrow> int" where
  "js_rem a n = sgn a * (\<bar>a\<bar> mod \<bar>n\<bar>)"

definition directions :: "string list" where
  "directions = [''N'', ''NE'', ''E'', ''SE'', ''S'', ''SW'', ''W'', ''NW'']"

text \<open>The \<^verbatim>\<open>index\<close> of \<^verbatim>\<open>getWindDirection\<close>.\<close>

definition windIndex :: "real \<Rightarrow> int" where
  "windIndex degrees = js_rem (Math_round (degrees / 45)) 8"

text \<open>
  \<^verbatim>\<open>getWindDirection\<close>: the argument \<open>None\<close> is \<^verbatim>\<open>undefined\<close>; the result
  \<open>None\<close> is the \<^verbatim>\<open>undefined\<close> that reading an array outside its indices gives.
\<close>

definition getWindDirection :: "real option \<Rightarrow> string option" where
  "getWindDirection degrees =
    (case degrees of
       None \<Rightarrow> Some []
     | Some d \<Rightarrow>
        (let index = windIndex d in
         if 0 \<le> index \<and> index < int (length directions)
         then Some (directions ! nat index) else None))"

record uv_level =
  label :: string
  color :: string

definition getUVLevel :: "real \<Rightarrow> uv_level" where
  "getUVLevel uvi =
    (if uvi \<le> 2 then \<lparr>label = ''Low'', color = ''#4CAF50''\<rparr>
     else if uvi \<le> 5 then \<lparr>label = ''Moderate'', color = ''#FFEB3B''\<rparr>
     else if uvi \<le> 7 then \<lparr>label = ''High'', color = ''#FF9800''\<rparr>
     else if uvi \<le> 10 then \<lparr>label = ''Very High'', color = ''#F44336''\<rparr>
     else \<lparr>label = ''Extreme'', color = ''#9C27B0''\<rparr>)"

section \<open>IEEE double arithmetic\<close>

text \<open>
  A finite double is a real number; \<open>None\<close> stands for the values that are not:
  \<^verbatim>\<open>NaN\<close> and the two infinities. \<open>fl\<close> is the rounding every operation and every
  decimal literal goes through: to the nearest multiple of the unit in the last place,
  the even one on a tie, with 53 bits of precision, the subnormal spacing \<open>2 powi - 1074\<close>
  at the bottom and an infinity once the rounded value reaches \<open>2 powi 1024\<close>, that
  is once its binary exponent is 1024. \<open>ilog2 x\<close> is the binary exponent of a positive
  \<open>x\<close>, the integer \<open>e\<close> with \<open>2 powi e \<le> x < 2 powi (e + 1)\<close>.
\<close>

function ilog2 :: "real \<Rightarrow> int" where
  "ilog2 x =
    (if 2 \<le> x then ilog2 (x / 2) + 1
     else if 0 < x \<and> x < 1 then ilog2 (x * 2) - 1
     else 0)"
  by pat_completeness auto
termination
proof (relation "measure (\<lambda>x. nat \<bar>\<lfloor>log 2 x\<rfloor>\<bar>)")
  show "wf (measure (\<lambda>x. nat \<bar>\<lfloor>log 2 x\<rfloor>\<bar>))" by simp
next
  fix x :: real
  assume x: "2 \<le> x"
  have "log 2 (x / 2) = log 2 x - 1" using x by (simp add: log_divide)
  moreover have "1 \<le> log 2 x" using x by (simp add: le_log_iff)
  ultimately show "(x / 2, x) \<in> measure (\<lambda>x. nat \<bar>\<lfloor>log 2 x\<rfloor>\<bar>)"
    by (simp add: le_floor_iff)
next
  fix x :: real
  assume "\<not> 2 \<le> x" and x: "0 < x \<and> x < 1"
  have "log 2 (x * 2) = log 2 x + 1" using x by (simp add: log_mult)
  moreover have "log 2 x < 0" using x by simp
  moreover have "\<bar>\<lfloor>log 2 x\<rfloor> + 1\<bar> < - \<lfloor>log 2 x\<rfloor>"
  proof -
    have "\<lfloor>log 2 x\<rfloor> < 0" using \<open>log 2 x < 0\<close> by (simp add: floor_less_iff)
    then show ?thesis by linarith
  qed
  ultimately show "(x * 2, x) \<in> measure (\<lambda>x. nat \<bar>\<lfloor>log 2 x\<rfloor>\<bar>)"
    by simp
qed

declare ilog2.simps [simp del]

definition round_even :: "real \<Rightarrow> int" where
  "round_even x =
    (let f = \<lfloor>x\<rfloor>; r = x - of_int f in
     if r < 1 / 2 then f
     else if 1 / 2 < r then f + 1
     else if even f then f else f + 1)"

definition ulp_exp :: "real \<Rightarrow> int" where
  "ulp_exp x = max (ilog2 \<bar>x\<bar> - 52) (- 1074)"

definition fl :: "real \<Rightarrow> real option" where
  "fl x =
    (let q = 2 powi ulp_exp x; y = of_int (round_even (x / q)) * q in
     if ilog2 \<bar>y\<bar> < 1024 then Some y else None)"

text \<open>
  The four operations on finite doubles. A division by zero gives an infinity or
  \<^verbatim>\<open>NaN\<close>. In the two functions below a value that is not finite stays so to the end
  (no operand is divided by an infinity that a finite one could absorb), so \<open>None\<close>
  is passed on.
\<close>

definition fmul :: "real \<Rightarrow> real \<Rightarrow> real option" where
  "fmul x y = fl (x * y)"

definition fadd :: "real \<Rightarrow> real \<Rightarrow> real option" where
  "fadd x y = fl (x + y)"

definition fsub :: "real \<Rightarrow> real \<Rightarrow> real option" where
  "fsub x y = fl (x - y)"

definition fdiv :: "real \<Rightarrow> real \<Rightarrow> real option" where
  "fdiv x y = (if y = 0 then None else fl (x / y))"

text \<open>
  \<^verbatim>\<open>Math.log\<close> is left to the engine: ECMAScript asks for an approximation of the
  natural logarithm and fixes only special values, among them \<^verbatim>\<open>Math.log(1) = +0\<close>,
  \<^verbatim>\<open>-Infinity\<close> at zero and \<^verbatim>\<open>NaN\<close> below. \<open>calculateDewPoint\<close> therefore takes
  the engine's logarithm on the positive doubles as a parameter. \<open>log_accurate\<close> is the
  accuracy the theorems ask of it, far below that of any engine (whose error is about
  one unit in the last place, less than \<open>1 / 2 ^ 49\<close> on this range). \<open>Math_log\<close> is
  one such logarithm, the correctly rounded one.
\<close>

definition log_accurate :: "(real \<Rightarrow> real) \<Rightarrow> bool" where
  "log_accurate mlog = (\<forall>x. 1 / 128 \<le> x \<and> x \<le> 2 \<longrightarrow> \<bar>mlog x - ln x\<bar> \<le> 1 / 2 ^ 40)"

definition Math_log :: "real \<Rightarrow> real" where
  "Math_log x = (case fl (ln x) of Some y \<Rightarrow> y | None \<Rightarrow> 0)"

text \<open>
  \<^verbatim>\<open>calculateDewPoint\<close>. The literals \<^verbatim>\<open>17.27\<close> and \<^verbatim>\<open>237.7\<close> are the doubles
  nearest to them. JavaScript raises nothing here: the result is \<open>None\<close>, that is
  \<^verbatim>\<open>NaN\<close> or an infinity, when \<open>b + tempCelsius\<close> is zero, when the humidity divided
  by 100 is not positive, when \<open>a - alpha\<close> is zero and when an operation overflows.
\<close>

definition calculateDewPoint :: "(real \<Rightarrow> real) \<Rightarrow> real \<Rightarrow> real \<Rightarrow> int option" where
  "calculateDewPoint mlog tempCelsius humidity =
     do {
       a \<leftarrow> fl 17.27;
       b \<leftarrow> fl 237.7;
       num \<leftarrow> fmul a tempCelsius;
       den \<leftarrow> fadd b tempCelsius;
       ratio \<leftarrow> fdiv num den;
       x \<leftarrow> fdiv humidity 100;
       lg \<leftarrow> (if x \<le> 0 then None else Some (mlog x));
       alpha \<leftarrow> fadd ratio lg;
       p \<leftarrow> fmul b alpha;
       q \<leftarrow> fsub a alpha;
       dewPoint \<leftarrow> fdiv p q;
       Some (Math_round dewPoint)
     }"

text \<open>
  The Magnus approximation as the specification writes it, over the reals:
  \<open>\<alpha> = (17.27 * T) / (237.7 + T) + ln (h / 100)\<close> and the dew point
  \<open>(237.7 * \<alpha>) / (17.27 - \<alpha>)\<close>.
\<close>

definition magnus_alpha :: "real \<Rightarrow> real \<Rightarrow> real" where
  "magnus_alpha T h = (17.27 * T) / (237.7 + T) + ln (h / 100)"

definition magnus_dewPoint :: "real \<Rightarrow> real \<Rightarrow> real" where
  "magnus_dewPoint T h = (237.7 * magnus_alpha T h) / (17.27 - magnus_alpha T h)"

section \<open>The controller\<close>

record forecast_item =
  dt_txt :: "string option"

record forecast_data =
  list' :: "forecast_item list option"

record one_call_data =
  current_uvi :: "real option"

text \<open>
  The state variables of \<^verbatim>\<open>App\<close>, one field for each \<^verbatim>\<open>useState\<close>. The city is
  optional because \<^verbatim>\<open>setCity(weatherData.name)\<close> stores an absent name as it is.
\<close>

record app_state =
  st_city :: "string option"
  st_weather :: snapshot
  st_forecast :: "forecast_item list"
  st_oneCallData :: "one_call_data option"
  st_loading :: bool
  st_error :: "string option"
  st_weatherType :: string
  st_isCelsius :: bool
  st_hasLoadedWeather :: bool

definition initialState :: app_state where
  "initialState =
    \<lparr>st_city = Some [], st_weather = None, st_forecast = [], st_oneCallData = None,
     st_loading = False, st_error = None, st_weatherType = ''default'',
     st_isCelsius = False, st_hasLoadedWeather = False\<rparr>"

text \<open>
  \<^verbatim>\<open>WEATHER_THEMES[weatherType] || WEATHER_THEMES.default\<close>.
\<close>

definition theme :: "app_state \<Rightarrow> theme_t option" where
  "theme s =
    (case map_of WEATHER_THEMES (st_weatherType s) of
       Some t \<Rightarrow> Some t
     | None \<Rightarrow> map_of WEATHER_THEMES ''default'')"


text \<open>
  The calls of the state setters. The effect
  \<^verbatim>\<open>useEffect(() => { if (weather) setWeatherType(getWeatherType(weather)) }, [weather])\<close>
  runs after a render in which \<^verbatim>\<open>weather\<close> has changed; it does something only when
  the new value is an object, and a parsed payload is always a new object. So
  \<open>dispatch\<close> runs it after \<open>SetWeather (Some d)\<close>, which is where it runs
  when React renders after each setter call of an asynchronous function. An error it
  raises is \<open>Inl\<close>: nothing in the source catches it.
\<close>

datatype action =
    SetCity "string option"
  | SetWeather snapshot
  | SetForecast "forecast_item list"
  | SetOneCallData "one_call_data option"
  | SetLoading bool
  | SetError "string option"
  | SetHasLoadedWeather bool

fun setState :: "action \<Rightarrow> app_state \<Rightarrow> app_state" where
  "setState (SetCity v) s = s\<lparr>st_city := v\<rparr>"
| "setState (SetWeather v) s = s\<lparr>st_weather := v\<rparr>"
| "setState (SetForecast v) s = s\<lparr>st_forecast := v\<rparr>"
| "setState (SetOneCallData v) s = s\<lparr>st_oneCallData := v\<rparr>"
| "setState (SetLoading v) s = s\<lparr>st_loading := v\<rparr>"
| "setState (SetError v) s = s\<lparr>st_error := v\<rparr>"
| "setState (SetHasLoadedWeather v) s = s\<lparr>st_hasLoadedWeather := v\<rparr>"

definition weatherEffect :: "app_state \<Rightarrow> js_error + app_state" where
  "weatherEffect s =
    (case st_weather s of
       None \<Rightarrow> Inr s
     | Some d \<Rightarrow>
        (case getWeatherType (Some d) of
           Inl e \<Rightarrow> Inl e
         | Inr t \<Rightarrow> Inr (s\<lparr>st_weatherType := t\<rparr>)))"

fun dispatch :: "app_state \<Rightarrow> action \<Rightarrow> js_error + app_state" where
  "dispatch s (SetWeather v) = weatherEffect (setState (SetWeather v) s)"
| "dispatch s act = Inr (setState act s)"

fun run :: "app_state \<Rightarrow> action list \<Rightarrow> js_error + app_state" where
  "run s [] = Inr s"
| "run s (act # acts) =
    (case dispatch s act of Inl e \<Rightarrow> Inl e | Inr s' \<Rightarrow> run s' acts)"

text \<open>
  What \<^verbatim>\<open>await fetch(url)\<close> followed by \<^verbatim>\<open>await response.json()\<close> can give: the
  fetch rejects, or it resolves to a response with its \<^verbatim>\<open>ok\<close> flag whose body
  parses or does not.
\<close>

datatype 'a body = Unparsable js_error | Parsed 'a

datatype 'a response = Rejected js_error | Replied bool "'a body"

text \<open>
  \<^verbatim>\<open>forecastData.list.filter((item) => item.dt_txt.includes('12:00:00'))\<close>
\<close>

fun noonReadings :: "forecast_item list \<Rightarrow> js_error + forecast_item list" where
  "noonReadings [] = Inr []"
| "noonReadings (item # items) =
    (case dt_txt item of
       None \<Rightarrow> Inl (TypeError ''item.dt_txt is undefined'')
     | Some t \<Rightarrow>
        (case noonReadings items of
           Inl e \<Rightarrow> Inl e
         | Inr rest \<Rightarrow> Inr (if includes_str t ''12:00:00'' then item # rest else rest)))"

definition forecastList :: "forecast_data option body \<Rightarrow> js_error + forecast_item list" where
  "forecastList b =
    (case b of
       Unparsable e \<Rightarrow> Inl e
     | Parsed None \<Rightarrow> Inl (TypeError ''forecastData is null'')
     | Parsed (Some forecastData) \<Rightarrow>
        (case list' forecastData of
           None \<Rightarrow> Inl (TypeError ''forecastData.list is undefined'')
         | Some items \<Rightarrow> noonReadings items))"

text \<open>
  The \<^verbatim>\<open>try\<close> block of \<^verbatim>\<open>fetchWeatherByCity\<close>: the setter calls it makes, in order,
  and the error that ends it, if any. \<^verbatim>\<open>fetchOneCallData\<close> is called without
  \<^verbatim>\<open>await\<close>: evaluating its arguments reads \<^verbatim>\<open>weatherData.coord.lat\<close>, and its own
  setter call comes at some later time that the source does not order, so it is not
  part of this sequence.
\<close>

definition cityTry ::
  "weather_data option response \<Rightarrow> forecast_data option response
    \<Rightarrow> action list \<times> js_error option" where
  "cityTry weatherResponse forecastResponse =
    (let started = [SetLoading True, SetError None] in
     case weatherResponse of
       Rejected e \<Rightarrow> (started, Some e)
     | Replied ok b \<Rightarrow>
        if \<not> ok then (started, Some (Error ''City not found''))
        else
          (case b of
             Unparsable e \<Rightarrow> (started, Some e)
           | Parsed weatherData \<Rightarrow>
              (let loaded = started @ [SetWeather weatherData, SetHasLoadedWeather True] in
               case weatherData of
                 None \<Rightarrow> (loaded, Some (TypeError ''weatherData is null''))
               | Some d \<Rightarrow>
                  (case coord d of
                     None \<Rightarrow> (loaded, Some (TypeError ''weatherData.coord is undefined''))
                   | Some c \<Rightarrow>
                      (case forecastResponse of
                         Rejected e \<Rightarrow> (loaded, Some e)
                       | Replied ok' b' \<Rightarrow>
                          (case forecastList b' of
                             Inl e \<Rightarrow> (loaded, Some e)
                           | Inr noon \<Rightarrow> (loaded @ [SetForecast noon], None)))))))"

definition fetchWeatherByCity ::
  "weather_data option response \<Rightarrow> forecast_data option response \<Rightarrow> action list" where
  "fetchWeatherByCity weatherResponse forecastResponse =
    (case cityTry weatherResponse forecastResponse of
       (done, Some err) \<Rightarrow>
         done @ [SetError (Some (message err)), SetWeather None, SetForecast [],
                 SetOneCallData None] @ [SetLoading False]
     | (done, None) \<Rightarrow> done @ [SetLoading False])"

text \<open>
  The \<^verbatim>\<open>try\<close> block of \<^verbatim>\<open>fetchWeatherByCoords\<close>. It does not test
  \<^verbatim>\<open>weatherResponse.ok\<close>; \<^verbatim>\<open>setCity(weatherData.name)\<close> reads a field of the
  payload; \<^verbatim>\<open>fetchOneCallData(lat, lon)\<close> reads nothing of it.
\<close>

definition coordsTry ::
  "weather_data option response \<Rightarrow> forecast_data option response
    \<Rightarrow> action list \<times> js_error option" where
  "coordsTry weatherResponse forecastResponse =
    (let started = [SetLoading True, SetError None] in
     case weatherResponse of
       Rejected e \<Rightarrow> (started, Some e)
     | Replied ok b \<Rightarrow>
        (case b of
           Unparsable e \<Rightarrow> (started, Some e)
         | Parsed weatherData \<Rightarrow>
            (case weatherData of
               None \<Rightarrow>
                 (started @ [SetWeather weatherData], Some (TypeError ''weatherData is null''))
             | Some d \<Rightarrow>
                (let loaded = started
                       @ [SetWeather weatherData, SetCity (name d), SetHasLoadedWeather True] in
                 case forecastResponse of
                   Rejected e \<Rightarrow> (loaded, Some e)
                 | Replied ok' b' \<Rightarrow>
                    (case forecastList b' of
                       Inl e \<Rightarrow> (loaded, Some e)
                     | Inr noon \<Rightarrow> (loaded @ [SetForecast noon], None))))))"

definition fetchWeatherByCoords ::
  "weather_data option response \<Rightarrow> forecast_data option response \<Rightarrow> action list" where
  "fetchWeatherByCoords weatherResponse forecastResponse =
    (case coordsTry weatherResponse forecastResponse of
       (done, Some err) \<Rightarrow>
         done @ [SetError (Some ''Failed to fetch weather data''), SetOneCallData None]
              @ [SetLoading False]
     | (done, None) \<Rightarrow> done @ [SetLoading False])"

section \<open>Auxiliary facts\<close>

lemma includes_str_n: "includes_str s ''n'' = (CHR ''n'' \<in> set s)"
  by (induction s) auto

text \<open>
  On the provider's icon codes the test \<^verbatim>\<open>includes('n')\<close> is the test of the last
  character.
\<close>

lemma providerIcon_night:
  "providerIcon s \<Longrightarrow> includes_str s ''n'' = (last s = CHR ''n'')"
  by (auto simp: providerIcon_def includes_str_n isDigit_def split: list.splits)

text \<open>\<^verbatim>\<open>Math.round\<close> is rounding to the nearest integer, ties upwards.\<close>

lemma Math_round_eq_round: "Math_round x = round x"
proof (cases "x - of_int \<lfloor>x\<rfloor> < 1 / 2")
  case True
  have "\<lfloor>x + 1 / 2\<rfloor> = \<lfloor>x\<rfloor>"
    by (rule floor_unique) (use True in linarith)+
  with True show ?thesis by (simp add: Math_round_def round_def)
next
  case False
  have "\<lfloor>x + 1 / 2\<rfloor> = \<lfloor>x\<rfloor> + 1"
    by (rule floor_unique) (use False in \<open>simp; linarith\<close>)+
  with False show ?thesis by (simp add: Math_round_def round_def)
qed

text \<open>On a dividend that is not negative, \<^verbatim>\<open>%\<close> is the modulus.\<close>

lemma js_rem_nonneg: "0 \<le> a \<Longrightarrow> 0 < n \<Longrightarrow> js_rem a n = a mod n"
  by (cases "a = 0") (simp_all add: js_rem_def)

lemma round_div45_nonneg: "0 \<le> d \<Longrightarrow> 0 \<le> round (d / 45 :: real)"
  by (simp add: round_def)

lemma windIndex_nonneg_degrees:
  assumes "0 \<le> d"
  shows "windIndex d = round (d / 45) mod 8"
  using round_div45_nonneg[OF assms]
  by (simp add: windIndex_def Math_round_eq_round js_rem_nonneg)

lemma directions_length: "length directions = 8"
  by (simp add: directions_def)

text \<open>A negative direction leaves the array: the function returns \<^verbatim>\<open>undefined\<close>.\<close>

lemma getWindDirection_negative: "getWindDirection (Some (- 90)) = None"
  by (simp add: getWindDirection_def windIndex_def Math_round_def js_rem_def)

text \<open>Bounds on \<open>ln (3 / 5)\<close>, from the Taylor bounds of the exponential.\<close>

lemma ln_three_fifths_upper: "ln (3 / 5 :: real) \<le> - (23 / 50)"
proof -
  have "exp (23 / 100 :: real) \<le> 1 + 23 / 100 + (23 / 100)\<^sup>2"
    by (rule exp_bound) simp_all
  then have "exp (23 / 100 :: real) \<le> 12829 / 10000" by (simp add: power2_eq_square)
  then have "exp (23 / 100 :: real) ^ 2 \<le> (12829 / 10000) ^ 2"
    by (intro power_mono) simp_all
  also have "(12829 / 10000 :: real) ^ 2 \<le> 5 / 3" by (simp add: power2_eq_square)
  finally have "exp (2 * (23 / 100) :: real) \<le> 5 / 3" by (simp only: exp_double)
  then have "exp (23 / 50 :: real) \<le> 5 / 3" by simp
  then have "(23 / 50 :: real) \<le> ln (5 / 3)"
    using ln_ge_iff[of "5 / 3 :: real" "23 / 50"] by simp
  moreover have "ln (3 / 5 :: real) = - ln (5 / 3)"
    using ln_inverse[of "5 / 3 :: real"] by simp
  ultimately show ?thesis by simp
qed

lemma ln_three_fifths_lower: "- (13 / 25) \<le> ln (3 / 5 :: real)"
proof -
  have "1 + 13 / 50 + (13 / 50)\<^sup>2 / 2 \<le> exp (13 / 50 :: real)"
    by (rule exp_lower_Taylor_quadratic) simp
  then have "(6469 / 5000 :: real) \<le> exp (13 / 50)" by (simp add: power2_eq_square)
  then have "(6469 / 5000 :: real) ^ 2 \<le> exp (13 / 50) ^ 2"
    by (intro power_mono) simp_all
  moreover have "(5 / 3 :: real) \<le> (6469 / 5000) ^ 2" by (simp add: power2_eq_square)
  ultimately have "(5 / 3 :: real) \<le> exp (2 * (13 / 50))" by (simp only: exp_double)
  then have "(5 / 3 :: real) \<le> exp (13 / 25)" by simp
  then have "ln (5 / 3 :: real) \<le> ln (exp (13 / 25))"
    using ln_le_cancel_iff[of "5 / 3 :: real" "exp (13 / 25)"] by simp
  then have "ln (5 / 3 :: real) \<le> 13 / 25" by simp
  moreover have "ln (3 / 5 :: real) = - ln (5 / 3)"
    using ln_inverse[of "5 / 3 :: real"] by simp
  ultimately show ?thesis by simp
qed

text \<open>The exact Magnus value for 25 degrees and 60 per cent lies strictly between the
  ties 16.5 and 17.5.\<close>

lemma magnus_alpha_25_60_bounds:
  "1123 / 1000 \<le> magnus_alpha 25 60" "magnus_alpha 25 60 \<le> 1184 / 1000"
proof -
  have eq: "magnus_alpha 25 60 = 8635 / 5254 + ln (3 / 5)"
    by (simp add: magnus_alpha_def)
  show "1123 / 1000 \<le> magnus_alpha 25 60"
    using ln_three_fifths_lower by (simp add: eq)
  show "magnus_alpha 25 60 \<le> 1184 / 1000"
    using ln_three_fifths_upper by (simp add: eq)
qed

lemma magnus_dewPoint_25_60_bounds:
  "1651 / 100 \<le> magnus_dewPoint 25 60" "magnus_dewPoint 25 60 \<le> 17499 / 1000"
proof -
  define al where "al = magnus_alpha 25 60"
  have lo: "1123 / 1000 \<le> al" and hi: "al \<le> 1184 / 1000"
    using magnus_alpha_25_60_bounds by (simp_all add: al_def)
  have pos: "0 < 1727 / 100 - al" using hi by simp
  have eq: "magnus_dewPoint 25 60 = (2377 / 10 * al) / (1727 / 100 - al)"
    by (simp add: magnus_dewPoint_def al_def)
  show "1651 / 100 \<le> magnus_dewPoint 25 60"
    unfolding eq using lo pos by (simp add: pos_le_divide_eq)
  show "magnus_dewPoint 25 60 \<le> 17499 / 1000"
    unfolding eq using hi pos by (simp add: pos_divide_le_eq)
qed

text \<open>At 20.5 degrees and 100 per cent the exact Magnus value is the tie 20.5.\<close>

lemma magnus_dewPoint_tie: "magnus_dewPoint (41 / 2) 100 = 41 / 2"
  by (simp add: magnus_dewPoint_def magnus_alpha_def)

subsection \<open>The rounding error of a double operation\<close>

lemma pow2_mono: "m \<le> n \<Longrightarrow> (2::real) powi m \<le> 2 powi n"
  by (rule power_int_increasing) simp_all

lemma pow2_le_D: "(2::real) powi m \<le> 2 powi n \<Longrightarrow> m \<le> n"
  using power_int_strict_increasing[of n m "2::real"] by (cases "m \<le> n") simp_all

lemma pow2_double: "(2::real) powi n + 2 powi n = 2 powi (n + 1)"
  by (simp add: power_int_add)

lemma pow2_half: "1 / 2 * (2::real) powi n = 2 powi (n - 1)"
  by (simp add: power_int_diff)

lemma ilog2_bounds:
  "0 < x \<Longrightarrow> 2 powi ilog2 x \<le> x \<and> x < 2 powi (ilog2 x + 1)"
proof (induction x rule: ilog2.induct)
  case (1 x)
  show ?case
  proof (cases "2 \<le> x")
    case True
    then have e: "ilog2 x = ilog2 (x / 2) + 1" by (subst ilog2.simps) simp
    have ih: "2 powi ilog2 (x / 2) \<le> x / 2 \<and> x / 2 < 2 powi (ilog2 (x / 2) + 1)"
      using "1.IH"(1)[OF True] True by simp
    have p: "(2::real) powi (ilog2 (x / 2) + 1) = 2 powi ilog2 (x / 2) * 2"
      and p': "(2::real) powi (ilog2 (x / 2) + 1 + 1) = 2 powi (ilog2 (x / 2) + 1) * 2"
      by (simp_all add: power_int_add)
    show ?thesis using ih unfolding e p' by (simp add: p)
  next
    case False
    show ?thesis
    proof (cases "x < 1")
      case True
      with "1.prems" False have e: "ilog2 x = ilog2 (x * 2) - 1"
        by (subst ilog2.simps) simp
      have ih: "2 powi ilog2 (x * 2) \<le> x * 2 \<and> x * 2 < 2 powi (ilog2 (x * 2) + 1)"
        using "1.IH"(2)[OF False] True "1.prems" by simp
      have p: "(2::real) powi (ilog2 (x * 2) - 1) = 2 powi ilog2 (x * 2) / 2"
        and p': "(2::real) powi (ilog2 (x * 2) + 1) = 2 powi ilog2 (x * 2) * 2"
        by (simp_all add: power_int_add power_int_diff)
      show ?thesis using ih unfolding e p' by (simp add: p)
    next
      case nl: False
      with False have e: "ilog2 x = 0" by (subst ilog2.simps) simp
      show ?thesis using False nl by (simp add: e)
    qed
  qed
qed

lemma ilog2_less:
  assumes "\<bar>y\<bar> < 2 powi n" and "0 < n"
  shows "ilog2 \<bar>y\<bar> < n"
proof (cases "y = 0")
  case True
  then show ?thesis using assms(2) by (simp add: ilog2.simps)
next
  case False
  then have "0 < \<bar>y\<bar>" by simp
  from ilog2_bounds[OF this] assms(1) have lt: "(2::real) powi ilog2 \<bar>y\<bar> < 2 powi n"
    by linarith
  show ?thesis
  proof (rule ccontr)
    assume "\<not> ilog2 \<bar>y\<bar> < n"
    then have "(2::real) powi n \<le> 2 powi ilog2 \<bar>y\<bar>" by (intro pow2_mono) simp
    with lt show False by simp
  qed
qed

lemma round_even_error: "\<bar>of_int (round_even z) - z\<bar> \<le> 1 / 2"
  unfolding round_even_def Let_def by (auto; linarith)

lemma fl_zero: "fl 0 = Some 0"
  by (simp add: fl_def round_even_def ilog2.simps)

text \<open>
  A number of magnitude at most \<open>2 powi k\<close> rounds to a finite double at a distance
  of at most half a unit in the last place, \<open>2 powi (k - 53)\<close>.
\<close>

lemma fl_error:
  assumes x: "\<bar>x\<bar> \<le> 2 powi k" and k: "- 1022 \<le> k" "k \<le> 1023"
  shows "\<exists>y. fl x = Some y \<and> \<bar>y - x\<bar> \<le> 2 powi (k - 53)"
proof (cases "x = 0")
  case True
  then show ?thesis by (simp add: fl_zero)
next
  case False
  define q :: real where "q = 2 powi ulp_exp x"
  define y where "y = of_int (round_even (x / q)) * q"
  have qpos: "0 < q" by (simp add: q_def)
  have "0 < \<bar>x\<bar>" using False by simp
  from ilog2_bounds[OF this] x have "(2::real) powi ilog2 \<bar>x\<bar> \<le> 2 powi k" by linarith
  then have "ilog2 \<bar>x\<bar> \<le> k" by (rule pow2_le_D)
  then have ue: "ulp_exp x \<le> k - 52" using k by (simp add: ulp_exp_def)
  then have qle: "q \<le> 2 powi (k - 52)" unfolding q_def by (rule pow2_mono)
  have "y - x = (of_int (round_even (x / q)) - x / q) * q"
    using qpos by (simp add: y_def left_diff_distrib)
  then have "\<bar>y - x\<bar> = \<bar>of_int (round_even (x / q)) - x / q\<bar> * q"
    using qpos by (simp add: abs_mult)
  also have "\<dots> \<le> 1 / 2 * q"
    using round_even_error[of "x / q"] qpos by (intro mult_right_mono) simp_all
  also have "\<dots> \<le> 1 / 2 * 2 powi (k - 52)" using qle by simp
  also have "\<dots> = 2 powi (k - 53)"
    using pow2_half[of "k - 52"] by simp
  finally have err: "\<bar>y - x\<bar> \<le> 2 powi (k - 53)" .
  have "(2::real) powi k \<le> 2 powi 1023" using k by (intro pow2_mono) simp
  moreover have "(2::real) powi (k - 53) \<le> 2 powi 1022" using k by (intro pow2_mono) simp
  moreover have "(2::real) powi 1022 < 2 powi 1023"
    by (rule power_int_strict_increasing) simp_all
  ultimately have "\<bar>y\<bar> < 2 powi 1023 + 2 powi 1023" using err x by linarith
  also have "\<dots> = 2 powi 1024 " using pow2_double[of 1023] by simp
  finally have "\<bar>y\<bar> < 2 powi 1024" .
  then have "ilog2 \<bar>y\<bar> < 1024" by (rule ilog2_less) simp
  then have "fl x = Some y" by (simp add: fl_def Let_def q_def y_def)
  with err show ?thesis by simp
qed

lemma fl_error':
  assumes "\<bar>x\<bar> \<le> 2 ^ k" and "k \<le> 1023"
  shows "\<exists>y. fl x = Some y \<and> \<bar>y - x\<bar> \<le> 2 ^ k / 2 ^ 53"
proof -
  have "\<bar>x\<bar> \<le> 2 powi (int k)" using assms by simp
  from fl_error[OF this] assms(2) obtain y where
    y: "fl x = Some y" "\<bar>y - x\<bar> \<le> 2 powi (int k - 53)" by auto
  have "(2::real) powi (int k - 53) = 2 ^ k / 2 ^ 53"
    by (simp add: power_int_diff)
  with y show ?thesis by auto
qed

subsection \<open>Perturbation of products, quotients and logarithms\<close>

lemma abs_mult_le:
  fixes x y a b :: real
  assumes "\<bar>x\<bar> \<le> a" and "\<bar>y\<bar> \<le> b"
  shows "\<bar>x * y\<bar> \<le> a * b"
proof -
  have "\<bar>x\<bar> * \<bar>y\<bar> \<le> a * b" using assms by (intro mult_mono) simp_all
  then show ?thesis by (simp add: abs_mult)
qed

lemma abs_mult_diff:
  fixes x y X Y :: real
  shows "\<bar>x * y - X * Y\<bar> \<le> \<bar>x - X\<bar> * \<bar>y\<bar> + \<bar>X\<bar> * \<bar>y - Y\<bar>"
proof -
  have "x * y - X * Y = (x - X) * y + X * (y - Y)" by (simp add: algebra_simps)
  then have "\<bar>x * y - X * Y\<bar> \<le> \<bar>(x - X) * y\<bar> + \<bar>X * (y - Y)\<bar>" by simp
  then show ?thesis by (simp add: abs_mult)
qed

lemma abs_div_diff:
  fixes u v N M m :: real
  assumes m: "0 < m" and v: "m \<le> v" and M: "m \<le> M"
  shows "\<bar>u / v - N / M\<bar> \<le> (\<bar>u - N\<bar> * M + \<bar>N\<bar> * \<bar>v - M\<bar>) / (m * m)"
proof -
  have vpos: "0 < v" and Mpos: "0 < M" using assms by linarith+
  have "u / v - N / M = ((u - N) * M - N * (v - M)) / (v * M)"
    using vpos Mpos by (simp add: field_simps)
  then have "\<bar>u / v - N / M\<bar> = \<bar>(u - N) * M - N * (v - M)\<bar> / (v * M)"
    using vpos Mpos by (simp add: abs_mult)
  also have "\<dots> \<le> (\<bar>u - N\<bar> * M + \<bar>N\<bar> * \<bar>v - M\<bar>) / (m * m)"
  proof (rule frac_le)
    show "0 \<le> \<bar>u - N\<bar> * M + \<bar>N\<bar> * \<bar>v - M\<bar>" using Mpos by simp
    have "\<bar>(u - N) * M - N * (v - M)\<bar> \<le> \<bar>(u - N) * M\<bar> + \<bar>N * (v - M)\<bar>"
      by (rule abs_triangle_ineq4)
    then show "\<bar>(u - N) * M - N * (v - M)\<bar> \<le> \<bar>u - N\<bar> * M + \<bar>N\<bar> * \<bar>v - M\<bar>"
      using Mpos by (simp add: abs_mult)
    show "0 < m * m" using m by simp
    show "m * m \<le> v * M" using m v M by (intro mult_mono) simp_all
  qed
  finally show ?thesis .
qed

lemma ln_diff_bound:
  fixes x y m :: real
  assumes m: "0 < m" and x: "m \<le> x" and y: "m \<le> y"
  shows "\<bar>ln x - ln y\<bar> \<le> \<bar>x - y\<bar> / m"
proof -
  have xpos: "0 < x" and ypos: "0 < y" using assms by linarith+
  have 1: "ln x - ln y \<le> \<bar>x - y\<bar> / m"
  proof -
    have "ln x - ln y = ln (x / y)" using xpos ypos by (simp add: ln_div)
    also have "\<dots> \<le> x / y - 1" using xpos ypos by (intro ln_le_minus_one) simp
    also have "\<dots> = (x - y) / y" using ypos by (simp add: field_simps)
    also have "\<dots> \<le> \<bar>x - y\<bar> / y" using ypos by (simp add: divide_right_mono)
    also have "\<dots> \<le> \<bar>x - y\<bar> / m" using m y by (intro divide_left_mono) simp_all
    finally show ?thesis .
  qed
  have 2: "ln y - ln x \<le> \<bar>x - y\<bar> / m"
  proof -
    have "ln y - ln x = ln (y / x)" using xpos ypos by (simp add: ln_div)
    also have "\<dots> \<le> y / x - 1" using xpos ypos by (intro ln_le_minus_one) simp
    also have "\<dots> = (y - x) / x" using xpos by (simp add: field_simps)
    also have "\<dots> \<le> \<bar>x - y\<bar> / x" using xpos by (simp add: divide_right_mono)
    also have "\<dots> \<le> \<bar>x - y\<bar> / m" using m x by (intro divide_left_mono) simp_all
    finally show ?thesis .
  qed
  from 1 2 show ?thesis by linarith
qed

lemma ln_ge_minus_7:
  fixes y :: real
  assumes "1 / 128 \<le> y"
  shows "- 7 \<le> ln y"
proof -
  have "ln (2 :: real) \<le> 1" using ln_le_minus_one[of "2::real"] by simp
  moreover have "ln (128 :: real) = 7 * ln 2" using ln_realpow[of "2::real" 7] by simp
  ultimately have "ln (128 :: real) \<le> 7" by simp
  then have "- 7 \<le> ln (1 / 128 :: real)" by (simp add: ln_div)
  also have "\<dots> \<le> ln y" using assms by (subst ln_le_cancel_iff) simp_all
  finally show ?thesis .
qed

text \<open>
  A value within \<open>e\<close> of \<open>D\<close> rounds as \<open>D\<close> does when \<open>D\<close> is farther than
  \<open>e\<close> from every tie.
\<close>

lemma round_stable:
  fixes d D e :: real
  assumes d: "\<bar>d - D\<bar> \<le> e" and far: "\<forall>k::int. e < \<bar>D - (of_int k + 1 / 2)\<bar>"
  shows "round d = round D"
proof -
  define r where "r = round D"
  have r: "of_int r \<le> D + 1 / 2" "D + 1 / 2 < of_int r + 1"
    unfolding r_def round_def by linarith+
  have f1: "e < \<bar>D - (of_int (r - 1) + 1 / 2)\<bar>" using far by blast
  have f2: "e < \<bar>D - (of_int r + 1 / 2)\<bar>" using far by blast
  have "\<lfloor>d + 1 / 2\<rfloor> = r"
    by (rule floor_unique) (use r f1 f2 d in \<open>simp; linarith\<close>)+
  then show ?thesis by (simp add: round_def r_def)
qed


text \<open>
  A value between two bounds that lie strictly inside the interval of two neighbouring
  ties is farther than \<open>e\<close> from every tie.
\<close>

lemma far_from_ties:
  fixes D lo hi e :: real and j :: int
  assumes "of_int j + 1 / 2 + e < lo" and "lo \<le> D" and "D \<le> hi" and "hi < of_int j + 3 / 2 - e"
  shows "\<forall>k::int. e < \<bar>D - (of_int k + 1 / 2)\<bar>"
proof
  fix k :: int
  consider "k \<le> j" | "j + 1 \<le> k" by linarith
  then show "e < \<bar>D - (of_int k + 1 / 2)\<bar>"
  proof cases
    case 1
    then have "real_of_int k \<le> of_int j" by simp
    with assms show ?thesis by linarith
  next
    case 2
    then have "real_of_int (j + 1) \<le> of_int k" by (simp only: of_int_le_iff)
    then have "real_of_int j + 1 \<le> of_int k" by simp
    with assms show ?thesis by linarith
  qed
qed

subsection \<open>The computed temperature and dew point\<close>


lemma magnus_quotient_bounds:
  fixes T :: real
  assumes T: "- 90 \<le> T" "T \<le> 60"
  shows "- 11 \<le> (1727 / 100 * T) / (2377 / 10 + T)" "(1727 / 100 * T) / (2377 / 10 + T) \<le> 7 / 2"
proof -
  have pos: "0 < 2377 / 10 + T" using T by linarith
  show "- 11 \<le> (1727 / 100 * T) / (2377 / 10 + T)"
    using pos T by (simp add: pos_le_divide_eq)
  show "(1727 / 100 * T) / (2377 / 10 + T) \<le> 7 / 2"
    using pos T by (simp add: pos_divide_le_eq)
qed

text \<open>
  For a temperature between -90 and 60 degrees, a humidity between 1 and 100 per
  cent and an accurate logarithm, the double that \<open>calculateDewPoint\<close> hands to
  \<^verbatim>\<open>Math.round\<close> is within \<open>1 / 2 ^ 30\<close> of the exact Magnus value.
\<close>

lemma calculateDewPoint_value:
  assumes T: "- 90 \<le> T" "T \<le> 60" and h: "1 \<le> h" "h \<le> 100"
    and ml: "log_accurate mlog"
  shows "\<exists>d. calculateDewPoint mlog T h = Some (Math_round d)
           \<and> \<bar>d - magnus_dewPoint T h\<bar> \<le> 1 / 2 ^ 30"
proof -
  define N :: real where "N = 1727 / 100 * T"
  define M :: real where "M = 2377 / 10 + T"
  define ly :: real where "ly = ln (h / 100)"
  define al :: real where "al = N / M + ly"
  have M: "1477 / 10 \<le> M" "M \<le> 2977 / 10" using T unfolding M_def by linarith+
  have N: "\<bar>N\<bar> \<le> 1555" using T unfolding N_def by linarith
  have NM: "- 11 \<le> N / M" "N / M \<le> 7 / 2"
    using magnus_quotient_bounds[OF T] unfolding N_def M_def by blast+
  \<comment> \<open>the two literals\<close>
  have "\<bar>1727 / 100 :: real\<bar> \<le> 2 ^ 5" by simp
  from fl_error'[OF this] obtain a where
    a: "fl (1727 / 100) = Some a" "\<bar>a - 1727 / 100\<bar> \<le> 1 / 281474976710656" by auto
  have "\<bar>2377 / 10 :: real\<bar> \<le> 2 ^ 8" by simp
  from fl_error'[OF this] obtain b where
    b: "fl (2377 / 10) = Some b" "\<bar>b - 2377 / 10\<bar> \<le> 1 / 35184372088832" by auto
  have a18: "\<bar>a\<bar> \<le> 18" using a(2) by linarith
  have b238: "\<bar>b\<bar> \<le> 238" using b(2) by linarith
  \<comment> \<open>\<open>a * tempCelsius\<close>\<close>
  have T90: "\<bar>T\<bar> \<le> 90" using T by linarith
  have "\<bar>a * T\<bar> \<le> 18 * 90" using a18 T90 by (rule abs_mult_le)
  then have "\<bar>a * T\<bar> \<le> 2 ^ 11" by simp
  from fl_error'[OF this] obtain num where
    num: "fl (a * T) = Some num" "\<bar>num - a * T\<bar> \<le> 1 / 4398046511104" by auto
  have "\<bar>(a - 1727 / 100) * T\<bar> \<le> 1 / 281474976710656 * 90" using a(2) T90 by (rule abs_mult_le)
  moreover have "(a - 1727 / 100) * T = a * T - N" by (simp add: N_def left_diff_distrib)
  ultimately have "\<bar>a * T - N\<bar> \<le> 90 / 281474976710656" by simp
  with num(2) have dN: "\<bar>num - N\<bar> \<le> 1 / 1099511627776" by linarith
  \<comment> \<open>\<open>b + tempCelsius\<close>\<close>
  have "\<bar>b + T\<bar> \<le> 512" using b(2) T by linarith
  then have "\<bar>b + T\<bar> \<le> 2 ^ 9" by simp
  from fl_error'[OF this] obtain den where
    den: "fl (b + T) = Some den" "\<bar>den - (b + T)\<bar> \<le> 1 / 17592186044416" by auto
  have dM: "\<bar>den - M\<bar> \<le> 1 / 8796093022208" using den(2) b(2) unfolding M_def by linarith
  have denlo: "147 \<le> den" using dM M by linarith
  \<comment> \<open>the quotient\<close>
  have "\<bar>num - N\<bar> * M \<le> 1 / 1099511627776 * 298" using dN M by (intro mult_mono) simp_all
  moreover have "\<bar>N\<bar> * \<bar>den - M\<bar> \<le> 1555 * (1 / 8796093022208)"
    using N dM by (intro mult_mono) simp_all
  ultimately have "\<bar>num - N\<bar> * M + \<bar>N\<bar> * \<bar>den - M\<bar> \<le> 21609 / 35184372088832"
    by linarith
  then have "(\<bar>num - N\<bar> * M + \<bar>N\<bar> * \<bar>den - M\<bar>) / (147 * 147) \<le> 1 / 35184372088832"
    by simp
  moreover have "\<bar>num / den - N / M\<bar> \<le> (\<bar>num - N\<bar> * M + \<bar>N\<bar> * \<bar>den - M\<bar>) / (147 * 147)"
    using denlo M by (intro abs_div_diff) simp_all
  ultimately have dq1: "\<bar>num / den - N / M\<bar> \<le> 1 / 35184372088832" by linarith
  then have "\<bar>num / den\<bar> \<le> 16" using NM by linarith
  then have "\<bar>num / den\<bar> \<le> 2 ^ 4" by simp
  from fl_error'[OF this] obtain ratio where
    ratio: "fl (num / den) = Some ratio" "\<bar>ratio - num / den\<bar> \<le> 1 / 562949953421312" by auto
  have d3: "\<bar>ratio - N / M\<bar> \<le> 1 / 17592186044416" using ratio(2) dq1 by linarith
  \<comment> \<open>the logarithm\<close>
  have "\<bar>h / 100\<bar> \<le> 2 ^ 0" using h by simp
  from fl_error'[OF this] obtain x where
    x: "fl (h / 100) = Some x" "\<bar>x - h / 100\<bar> \<le> 1 / 9007199254740992" by auto
  have y128: "1 / 128 \<le> h / 100" "h / 100 \<le> 1" "1 / 100 \<le> h / 100"
    using h by simp_all
  have xr: "1 / 128 \<le> x" "x \<le> 2" using x(2) y128 by linarith+
  have dl: "\<bar>mlog x - ln x\<bar> \<le> 1 / 1099511627776" using ml xr by (simp add: log_accurate_def)
  have "\<bar>ln x - ln (h / 100)\<bar> \<le> \<bar>x - h / 100\<bar> / (1 / 128)"
    using xr y128 by (intro ln_diff_bound) simp_all
  then have "\<bar>ln x - ly\<bar> \<le> \<bar>x - h / 100\<bar> * 128" by (simp add: ly_def)
  moreover have "\<bar>x - h / 100\<bar> * 128 \<le> 1 / 70368744177664" using x(2) by simp
  ultimately have "\<bar>ln x - ly\<bar> \<le> 1 / 70368744177664" by (rule order_trans)
  with dl have dL: "\<bar>mlog x - ly\<bar> \<le> 1 / 1099511627776 + 1 / 70368744177664" by linarith
  have ly: "- 7 \<le> ly" "ly \<le> 0"
    using ln_ge_minus_7[OF y128(1)] h by (simp_all add: ly_def)
  \<comment> \<open>\<open>alpha\<close>\<close>
  have "\<bar>ratio + mlog x\<bar> \<le> 32" using d3 dL NM ly by linarith
  then have "\<bar>ratio + mlog x\<bar> \<le> 2 ^ 5" by simp
  from fl_error'[OF this] obtain alpha where
    alpha: "fl (ratio + mlog x) = Some alpha" "\<bar>alpha - (ratio + mlog x)\<bar> \<le> 1 / 281474976710656" by auto
  have dal: "\<bar>alpha - al\<bar> \<le> 1 / 549755813888" using alpha(2) d3 dL unfolding al_def by linarith
  have al: "- 18 \<le> al" "al \<le> 7 / 2" using NM ly unfolding al_def by linarith+
  have alpha19: "\<bar>alpha\<bar> \<le> 19" using dal al by linarith
  \<comment> \<open>numerator and denominator of the dew point\<close>
  have "\<bar>b * alpha\<bar> \<le> 238 * 19" using b238 alpha19 by (rule abs_mult_le)
  then have "\<bar>b * alpha\<bar> \<le> 2 ^ 13" by simp
  from fl_error'[OF this] obtain p where
    p: "fl (b * alpha) = Some p" "\<bar>p - b * alpha\<bar> \<le> 1 / 1099511627776" by auto
  have "\<bar>b - 2377 / 10\<bar> * \<bar>alpha\<bar> \<le> 1 / 35184372088832 * 19"
    using b(2) alpha19 by (intro mult_mono) simp_all
  moreover have "\<bar>2377 / 10 :: real\<bar> * \<bar>alpha - al\<bar> \<le> 2377 / 10 * (1 / 549755813888)"
    using dal by (intro mult_mono) simp_all
  moreover have "\<bar>b * alpha - 2377 / 10 * al\<bar>
      \<le> \<bar>b - 2377 / 10\<bar> * \<bar>alpha\<bar> + \<bar>2377 / 10\<bar> * \<bar>alpha - al\<bar>"
    by (rule abs_mult_diff)
  ultimately have dP: "\<bar>p - 2377 / 10 * al\<bar> \<le> 1 / 2147483648" using p(2) by linarith
  have "\<bar>a - alpha\<bar> \<le> 64" using a18 alpha19 by linarith
  then have "\<bar>a - alpha\<bar> \<le> 2 ^ 6" by simp
  from fl_error'[OF this] obtain q where
    q: "fl (a - alpha) = Some q" "\<bar>q - (a - alpha)\<bar> \<le> 1 / 140737488355328" by auto
  have dQ: "\<bar>q - (1727 / 100 - al)\<bar> \<le> 1 / 274877906944" using q(2) a(2) dal by linarith
  have Q: "1377 / 100 \<le> 1727 / 100 - al" "1727 / 100 - al \<le> 36" using al by linarith+
  have qlo: "13 \<le> q" using dQ Q by linarith
  have "\<bar>2377 / 10 * al\<bar> \<le> 2377 / 10 * 18"
    using al by (intro abs_mult_le) simp_all
  then have P: "\<bar>2377 / 10 * al\<bar> \<le> 42786 / 10" by simp
  \<comment> \<open>the dew point\<close>
  have "\<bar>p - 2377 / 10 * al\<bar> * (1727 / 100 - al) \<le> 1 / 2147483648 * 36"
    using dP Q by (intro mult_mono) simp_all
  moreover have "\<bar>2377 / 10 * al\<bar> * \<bar>q - (1727 / 100 - al)\<bar> \<le> 42786 / 10 * (1 / 274877906944)"
    using P dQ by (intro mult_mono) simp_all
  ultimately have
    "\<bar>p - 2377 / 10 * al\<bar> * (1727 / 100 - al)
        + \<bar>2377 / 10 * al\<bar> * \<bar>q - (1727 / 100 - al)\<bar>
      \<le> 1 / 2147483648 * 36 + 42786 / 10 * (1 / 274877906944)"
    by (rule add_mono)
  also have "\<dots> \<le> 169 / 4294967296" by simp
  finally have
    "\<bar>p - 2377 / 10 * al\<bar> * (1727 / 100 - al)
        + \<bar>2377 / 10 * al\<bar> * \<bar>q - (1727 / 100 - al)\<bar> \<le> 169 / 4294967296" .
  then have
    "(\<bar>p - 2377 / 10 * al\<bar> * (1727 / 100 - al)
        + \<bar>2377 / 10 * al\<bar> * \<bar>q - (1727 / 100 - al)\<bar>) / (13 * 13) \<le> 1 / 4294967296"
    by simp
  moreover have "\<bar>p / q - (2377 / 10 * al) / (1727 / 100 - al)\<bar>
      \<le> (\<bar>p - 2377 / 10 * al\<bar> * (1727 / 100 - al)
          + \<bar>2377 / 10 * al\<bar> * \<bar>q - (1727 / 100 - al)\<bar>) / (13 * 13)"
    using qlo Q by (intro abs_div_diff) simp_all
  ultimately have dD: "\<bar>p / q - (2377 / 10 * al) / (1727 / 100 - al)\<bar> \<le> 1 / 4294967296"
    by linarith
  have "\<bar>p\<bar> \<le> 512 * q" using dP P qlo by linarith
  then have "\<bar>p / q\<bar> \<le> 2 ^ 9" using qlo by (simp add: pos_divide_le_eq)
  from fl_error'[OF this] obtain d where
    d: "fl (p / q) = Some d" "\<bar>d - p / q\<bar> \<le> 1 / 17592186044416" by auto
  have "magnus_dewPoint T h = (2377 / 10 * al) / (1727 / 100 - al)"
    by (simp add: magnus_dewPoint_def magnus_alpha_def al_def N_def M_def ly_def)
  with dD d(2) have "\<bar>d - magnus_dewPoint T h\<bar> \<le> 1 / 1073741824" by linarith
  then have "\<bar>d - magnus_dewPoint T h\<bar> \<le> 1 / 2 ^ 30" by simp
  moreover have "calculateDewPoint mlog T h = Some (Math_round d)"
    using denlo xr qlo
    by (simp add: calculateDewPoint_def fmul_def fadd_def fsub_def fdiv_def a b num den ratio x
        alpha p q d)
  ultimately show ?thesis by blast
qed

text \<open>The correctly rounded logarithm is accurate.\<close>

lemma log_accurate_Math_log: "log_accurate Math_log"
  unfolding log_accurate_def
proof (intro allI impI)
  fix x :: real
  assume x: "1 / 128 \<le> x \<and> x \<le> 2"
  then have "- 7 \<le> ln x" by (intro ln_ge_minus_7) simp
  moreover have "ln x \<le> x - 1" using x by (intro ln_le_minus_one) linarith
  ultimately have "\<bar>ln x\<bar> \<le> 8" using x by linarith
  then have "\<bar>ln x\<bar> \<le> 2 ^ 3" by simp
  from fl_error'[OF this] obtain y where
    y: "fl (ln x) = Some y" "\<bar>y - ln x\<bar> \<le> 1 / 1125899906842624" by auto
  then have "\<bar>Math_log x - ln x\<bar> \<le> 1 / 1125899906842624" by (simp add: Math_log_def)
  then have "\<bar>Math_log x - ln x\<bar> \<le> 1 / 1099511627776" by linarith
  then show "\<bar>Math_log x - ln x\<bar> \<le> 1 / 2 ^ 40" by simp
qed

text \<open>
  \<^verbatim>\<open>Math.log(1)\<close> is \<^verbatim>\<open>+0\<close> in every engine; with it the dew point for 20.5
  degrees and 100 per cent is 20.
\<close>

lemma Math_log_1: "Math_log 1 = 0"
  by (simp add: Math_log_def fl_zero)

lemma calculateDewPoint_205_100:
  assumes "mlog 1 = 0"
  shows "calculateDewPoint mlog (41 / 2) 100 = Some 20"
proof -
  have x: "fdiv 100 100 = Some 1" by code_simp
  have "calculateDewPoint mlog (41 / 2) 100 = calculateDewPoint (\<lambda>x. 0) (41 / 2) 100"
    using assms by (simp add: calculateDewPoint_def x)
  also have "\<dots> = Some 20" by code_simp
  finally show ?thesis .
qed

lemma run_append:
  "run s (xs @ ys) = (case run s xs of Inl e \<Rightarrow> Inl e | Inr s' \<Rightarrow> run s' ys)"
  by (induction xs arbitrary: s) (auto split: sum.splits)

text \<open>
  Whenever the \<^verbatim>\<open>try\<close> block of \<^verbatim>\<open>fetchWeatherByCity\<close> ends in an error, the
  \<^verbatim>\<open>catch\<close> block records it and clears the snapshot, the forecast and the extended
  conditions.
\<close>

lemma fetchWeatherByCity_failure_clears:
  assumes "cityTry weatherResponse forecastResponse = (done, Some err)"
    and "run s (fetchWeatherByCity weatherResponse forecastResponse) = Inr s'"
  shows "st_error s' = Some (message err) \<and> st_weather s' = None
    \<and> st_forecast s' = [] \<and> st_oneCallData s' = None \<and> \<not> st_loading s'"
  using assms
  by (auto simp: fetchWeatherByCity_def run_append weatherEffect_def split: sum.splits)

text \<open>
  Whenever the \<^verbatim>\<open>try\<close> block of \<^verbatim>\<open>fetchWeatherByCoords\<close> ends in an error, the
  \<^verbatim>\<open>catch\<close> block clears the extended conditions only: the forecast is the one the
  state held before the call.
\<close>

lemma fetchWeatherByCoords_failure_keeps_forecast:
  assumes "coordsTry weatherResponse forecastResponse = (done, Some err)"
    and "run s (fetchWeatherByCoords weatherResponse forecastResponse) = Inr s'"
  shows "st_forecast s' = st_forecast s \<and> st_oneCallData s' = None"
  using assms
  by (auto simp: fetchWeatherByCoords_def coordsTry_def Let_def weatherEffect_def
      split: sum.splits response.splits body.splits option.splits)

section \<open>The classifier's rules\<close>

text \<open>
  Claim C1. On a snapshot whose first weather entry carries an integer condition code
  and a string icon code, \<open>getWeatherType\<close> returns the tag of the seven rules: codes
  in [200,300) give thunderstorm, [300,600) rain, [600,700) snow, 801..804 night at
  nighttime and cloudy otherwise, 800 night at nighttime and sunny otherwise, [700,800)
  cloudy whatever the icon, and every other code night at nighttime and default
  otherwise. The ranges do not overlap, so the first match is the only one. Nighttime is
  the source's test, that the icon code contains the letter n; on the provider's icon
  codes it is the test of the last character (\<open>providerIcon_night\<close>).
\<close>

theorem getWeatherType_rules:
  assumes "weather d = Some (w # ws)" and "icon w = Some iconCode" and "id' w = Some code"
  shows "(200 \<le> code \<and> code < 300 \<longrightarrow> getWeatherType (Some d) = Inr ''thunderstorm'')
    \<and> (300 \<le> code \<and> code < 600 \<longrightarrow> getWeatherType (Some d) = Inr ''rain'')
    \<and> (600 \<le> code \<and> code < 700 \<longrightarrow> getWeatherType (Some d) = Inr ''snow'')
    \<and> (801 \<le> code \<and> code \<le> 804 \<longrightarrow>
          getWeatherType (Some d)
            = Inr (if includes_str iconCode ''n'' then ''night'' else ''cloudy''))
    \<and> (code = 800 \<longrightarrow>
          getWeatherType (Some d)
            = Inr (if includes_str iconCode ''n'' then ''night'' else ''sunny''))
    \<and> (700 \<le> code \<and> code < 800 \<longrightarrow> getWeatherType (Some d) = Inr ''cloudy'')
    \<and> (code < 200 \<or> 804 < code \<longrightarrow>
          getWeatherType (Some d)
            = Inr (if includes_str iconCode ''n'' then ''night'' else ''default''))"
  using assms by (simp add: getWeatherType_def)

theorem getWeatherType_rules_witness:
  "weather \<lparr>weather = Some [\<lparr>icon = Some ''03n'', id' = Some 802\<rparr>], coord = None, name = None\<rparr>
     = Some [\<lparr>icon = Some ''03n'', id' = Some 802\<rparr>]
   \<and> icon \<lparr>icon = Some ''03n'', id' = Some 802\<rparr> = Some ''03n''
   \<and> id' \<lparr>icon = Some ''03n'', id' = Some 802\<rparr> = Some 802
   \<and> getWeatherType
        (Some \<lparr>weather = Some [\<lparr>icon = Some ''03n'', id' = Some 802\<rparr>], coord = None,
               name = None\<rparr>)
      = Inr ''night''"
  using getWeatherType_rules
    [of "\<lparr>weather = Some [\<lparr>icon = Some ''03n'', id' = Some 802\<rparr>], coord = None, name = None\<rparr>"
        "\<lparr>icon = Some ''03n'', id' = Some 802\<rparr>" "[]" "''03n''" 802]
  by simp

text \<open>
  Claim C2, as the code has it. \<open>getWeatherType\<close> raises nothing on a snapshot whose
  first weather entry has a string icon code: whatever the condition code, and also when
  it is absent, the result is one of the seven tags (an absent code falls to the last
  rule). On the missing snapshot, \<^verbatim>\<open>null\<close>, it returns default before any field is
  read. A snapshot that is an object without the weather entry or without its icon code
  is not caught by the guard: reading its fields raises a \<^verbatim>\<open>TypeError\<close>.
\<close>

theorem getWeatherType_defined_tag:
  "(weather d = Some (w # ws) \<and> icon w = Some iconCode \<longrightarrow>
      (\<exists>t \<in> set weatherTypes. getWeatherType (Some d) = Inr t)
      \<and> (id' w = None \<longrightarrow>
           getWeatherType (Some d)
             = Inr (if includes_str iconCode ''n'' then ''night'' else ''default'')))
   \<and> getWeatherType None = Inr ''default''
   \<and> (weather d' = None \<or> weather d' = Some []
        \<or> (weather d' = Some (w' # ws') \<and> icon w' = None) \<longrightarrow>
      (\<exists>m. getWeatherType (Some d') = Inl (TypeError m)))"
  by (auto simp: getWeatherType_def weatherTypes_def Let_def split: option.splits)

theorem getWeatherType_defined_tag_witness:
  "weather \<lparr>weather = Some [\<lparr>icon = Some ''50n'', id' = None\<rparr>], coord = None, name = None\<rparr>
     = Some [\<lparr>icon = Some ''50n'', id' = None\<rparr>]
   \<and> icon \<lparr>icon = Some ''50n'', id' = None\<rparr> = Some ''50n''
   \<and> id' \<lparr>icon = Some ''50n'', id' = None\<rparr> = None
   \<and> getWeatherType
        (Some \<lparr>weather = Some [\<lparr>icon = Some ''50n'', id' = None\<rparr>], coord = None, name = None\<rparr>)
      = Inr ''night''
   \<and> weather \<lparr>weather = Some [], coord = None, name = None\<rparr> = Some []
   \<and> (\<exists>m. getWeatherType (Some \<lparr>weather = Some [], coord = None, name = None\<rparr>)
          = Inl (TypeError m))"
  using getWeatherType_defined_tag
    [of "\<lparr>weather = Some [\<lparr>icon = Some ''50n'', id' = None\<rparr>], coord = None, name = None\<rparr>"
        "\<lparr>icon = Some ''50n'', id' = None\<rparr>" "[]" "''50n''"
        "\<lparr>weather = Some [], coord = None, name = None\<rparr>"]
  by simp

text \<open>
  The claim as written fails on an object that lacks the \<^verbatim>\<open>weather\<close> field: the
  result is not default.
\<close>

theorem getWeatherType_malformed_counterexample:
  "getWeatherType (Some \<lparr>weather = None, coord = None, name = None\<rparr>) \<noteq> Inr ''default''"
  by (simp add: getWeatherType_def)

section \<open>The controller on a failed fetch\<close>

text \<open>
  Claim C3. After a failed fetch the stale forecast and the stale extended conditions
  are to be cleared together with the recording of the error. The by-city path does so
  (\<open>fetchWeatherByCity_failure_clears\<close>); the by-coordinates path does not. Here the
  state holds London's snapshot and forecast, the request for the current weather at
  the coordinates answers with Paris and the forecast request is rejected: the state
  that results shows Paris with London's forecast.
\<close>

theorem fetchWeatherByCoords_stale_forecast:
  "run (initialState\<lparr>st_city := Some ''London'',
          st_weather := Some \<lparr>weather = Some [\<lparr>icon = Some ''01d'', id' = Some 800\<rparr>],
                              coord = None, name = Some ''London''\<rparr>,
          st_forecast := [\<lparr>dt_txt = Some ''2024-05-01 12:00:00''\<rparr>],
          st_weatherType := ''sunny'', st_hasLoadedWeather := True\<rparr>)
       (fetchWeatherByCoords
          (Replied True (Parsed (Some \<lparr>weather = Some [\<lparr>icon = Some ''10d'', id' = Some 501\<rparr>],
                                      coord = None, name = Some ''Paris''\<rparr>)))
          (Rejected (TypeError ''Network request failed'')))
   = Inr \<lparr>st_city = Some ''Paris'',
          st_weather = Some \<lparr>weather = Some [\<lparr>icon = Some ''10d'', id' = Some 501\<rparr>],
                              coord = None, name = Some ''Paris''\<rparr>,
          st_forecast = [\<lparr>dt_txt = Some ''2024-05-01 12:00:00''\<rparr>],
          st_oneCallData = None, st_loading = False,
          st_error = Some ''Failed to fetch weather data'', st_weatherType = ''rain'',
          st_isCelsius = False, st_hasLoadedWeather = True\<rparr>"
  by (simp add: fetchWeatherByCoords_def coordsTry_def initialState_def weatherEffect_def
      getWeatherType_def)

text \<open>
  Claim C4. The snapshot with code 501 and icon \<^verbatim>\<open>10d\<close> classifies as rain; once the
  controller holds it, the weather type is rain and the theme is the rain entry of the
  table. A city lookup that fails, because the provider answers that it has no match or
  because the request is rejected, ends with the error recorded and the snapshot
  cleared, and leaves the weather type as it was: the value of the last snapshot, or
  default in the initial state. The effect does not read the cleared snapshot, so
  nothing is raised.
\<close>

theorem rain_scenario_and_failed_lookup:
  "getWeatherType (mkSnapshot 501 ''10d'') = Inr ''rain''
   \<and> run s [SetWeather (mkSnapshot 501 ''10d'')]
       = Inr (s\<lparr>st_weather := mkSnapshot 501 ''10d'', st_weatherType := ''rain''\<rparr>)
   \<and> theme (s\<lparr>st_weather := mkSnapshot 501 ''10d'', st_weatherType := ''rain''\<rparr>)
       = Some \<lparr>background = ''#0f0f1a'', cardBg = ''rgba(255, 255, 255, 0.08)'',
               accent = ''#6B8DD6''\<rparr>
   \<and> theme (s\<lparr>st_weather := mkSnapshot 501 ''10d'', st_weatherType := ''rain''\<rparr>)
       = map_of WEATHER_THEMES ''rain''
   \<and> (\<exists>s'. run s (fetchWeatherByCity (Replied False b) forecastResponse) = Inr s'
          \<and> st_weatherType s' = st_weatherType s \<and> st_weather s' = None
          \<and> st_error s' = Some ''City not found'')
   \<and> (\<exists>s'. run s (fetchWeatherByCity (Rejected e) forecastResponse) = Inr s'
          \<and> st_weatherType s' = st_weatherType s \<and> st_weather s' = None
          \<and> st_error s' = Some (message e))
   \<and> (\<exists>s'. run initialState (fetchWeatherByCity (Replied False b) forecastResponse) = Inr s'
          \<and> st_weatherType s' = ''default'')"
  by (simp add: getWeatherType_def mkSnapshot_def weatherEffect_def theme_def WEATHER_THEMES_def
      fetchWeatherByCity_def cityTry_def initialState_def)

theorem rain_scenario_and_failed_lookup_witness:
  "(\<exists>s'. run (initialState\<lparr>st_weatherType := ''snow''\<rparr>)
           (fetchWeatherByCity (Replied False (Parsed None)) (Rejected (Error ''unused''))) = Inr s'
        \<and> st_weatherType s' = ''snow'' \<and> st_weather s' = None
        \<and> st_error s' = Some ''City not found'')"
  using rain_scenario_and_failed_lookup
    [of "initialState\<lparr>st_weatherType := ''snow''\<rparr>" "Parsed None" "Rejected (Error ''unused'')"]
  by simp

section \<open>Wind direction\<close>

text \<open>
  Claim C5. For a direction between 0 and 360 degrees \<open>getWindDirection\<close> returns the
  entry of the compass list at the index \<open>round (d / 45) mod 8\<close>, with the rounding
  and the modulus of mathematics; for \<^verbatim>\<open>undefined\<close> it returns the empty string.
\<close>

theorem getWindDirection_compass:
  "(0 \<le> d \<and> d \<le> 360 \<longrightarrow>
      getWindDirection (Some d) = Some (directions ! nat (round (d / 45) mod 8)))
   \<and> directions = [''N'', ''NE'', ''E'', ''SE'', ''S'', ''SW'', ''W'', ''NW'']
   \<and> getWindDirection None = Some ''''"
  by (simp add: getWindDirection_def windIndex_nonneg_degrees directions_length Let_def)
    (simp add: directions_def)

theorem getWindDirection_compass_witness:
  "(0::real) \<le> 90 \<and> (90::real) \<le> 360 \<and> getWindDirection (Some 90) = Some ''E''"
  using getWindDirection_compass[of 90] by (simp add: directions_def)

text \<open>
  Claim C6, as the code has it. 0 degrees is N, 44 degrees is NE (44 / 45 rounds to 1:
  the nearest compass point of 44 degrees is the one at 45), 46 degrees is NE, and 360
  degrees is N, the index 8 wrapping to 0.
\<close>

theorem getWindDirection_examples:
  "getWindDirection (Some 0) = Some ''N'' \<and> getWindDirection (Some 44) = Some ''NE''
   \<and> getWindDirection (Some 46) = Some ''NE'' \<and> getWindDirection (Some 360) = Some ''N''"
  by (simp add: getWindDirection_def windIndex_def Math_round_def js_rem_def directions_def)

text \<open>The claim as written fails at 44 degrees: the result is not N.\<close>

theorem getWindDirection_44_counterexample:
  "getWindDirection (Some 44) \<noteq> Some ''N''"
  by (simp add: getWindDirection_def windIndex_def Math_round_def js_rem_def directions_def)

text \<open>
  Claim C10. For a direction between 0 and 360 degrees the index computed in
  \<open>getWindDirection\<close> lies in 0..7, inside the compass list, and the function returns
  one of the eight compass strings.
\<close>

theorem windIndex_in_bounds:
  assumes "0 \<le> d" and "d \<le> 360"
  shows "0 \<le> windIndex d \<and> windIndex d \<le> 7 \<and> windIndex d < int (length directions)
    \<and> (\<exists>c \<in> set directions. getWindDirection (Some d) = Some c)"
proof -
  have idx: "windIndex d = round (d / 45) mod 8"
    using assms(1) by (rule windIndex_nonneg_degrees)
  have lo: "0 \<le> windIndex d" and hi: "windIndex d < 8"
    by (simp_all add: idx)
  have "nat (windIndex d) < length directions"
    using lo hi by (simp add: directions_length)
  then have "directions ! nat (windIndex d) \<in> set directions"
    by (rule nth_mem)
  moreover have "getWindDirection (Some d) = Some (directions ! nat (windIndex d))"
    using lo hi by (simp add: getWindDirection_def directions_length)
  ultimately show ?thesis
    using lo hi by (simp add: directions_length)
qed

theorem windIndex_in_bounds_witness:
  "(0::real) \<le> 360 \<and> (360::real) \<le> 360 \<and> 0 \<le> windIndex 360 \<and> windIndex 360 \<le> 7
    \<and> getWindDirection (Some 360) \<in> Some ` set directions"
  using windIndex_in_bounds[of 360] by auto

section \<open>UV bucket, temperature and dew point\<close>

text \<open>
  Claim C7. \<open>getUVLevel\<close> returns Low up to 2, Moderate above 2 and up to 5, High
  above 5 and up to 7, Very High above 7 and up to 10, and Extreme above 10; so 2 is
  Low, 2.01 is Moderate and 11 is Extreme.
\<close>

theorem getUVLevel_buckets:
  "(uvi \<le> 2 \<longrightarrow> label (getUVLevel uvi) = ''Low'')
   \<and> (2 < uvi \<and> uvi \<le> 5 \<longrightarrow> label (getUVLevel uvi) = ''Moderate'')
   \<and> (5 < uvi \<and> uvi \<le> 7 \<longrightarrow> label (getUVLevel uvi) = ''High'')
   \<and> (7 < uvi \<and> uvi \<le> 10 \<longrightarrow> label (getUVLevel uvi) = ''Very High'')
   \<and> (10 < uvi \<longrightarrow> label (getUVLevel uvi) = ''Extreme'')
   \<and> label (getUVLevel 2) = ''Low''
   \<and> label (getUVLevel (201 / 100)) = ''Moderate''
   \<and> label (getUVLevel 11) = ''Extreme''"
  by (simp add: getUVLevel_def)

theorem getUVLevel_buckets_witness:
  "(5::real) < 6 \<and> (6::real) \<le> 7 \<and> label (getUVLevel 6) = ''High''"
  using getUVLevel_buckets[of 6] by simp




text \<open>
  Claim C9, as the code has it. \<open>calculateDewPoint\<close> returns \<^verbatim>\<open>Math.round\<close> of
  the Magnus approximation \<open>\<alpha> = (17.27 * T) / (237.7 + T) + ln (h / 100)\<close>, dew
  point \<open>(237.7 * \<alpha>) / (17.27 - \<alpha>)\<close>, as double arithmetic evaluates it. For a
  temperature between -90 and 60 degrees, a humidity between 1 and 100 per cent and
  an accurate \<^verbatim>\<open>Math.log\<close> that is an integer within \<open>1 / 2 + 1 / 2 ^ 30\<close> of the
  exact value; it is the exact value rounded to the nearest integer whenever the exact
  value is farther than \<open>1 / 2 ^ 30\<close> from every tie \<open>k + 1 / 2\<close>. For 25 degrees
  and 60 per cent the result is 17, within one degree of 16.
\<close>

theorem calculateDewPoint_magnus:
  "(- 90 \<le> T \<and> T \<le> 60 \<and> 1 \<le> h \<and> h \<le> 100 \<and> log_accurate mlog \<longrightarrow>
      (\<exists>n. calculateDewPoint mlog T h = Some n
           \<and> \<bar>of_int n - magnus_dewPoint T h\<bar> \<le> 1 / 2 + 1 / 2 ^ 30))
   \<and> (- 90 \<le> T \<and> T \<le> 60 \<and> 1 \<le> h \<and> h \<le> 100 \<and> log_accurate mlog
        \<and> (\<forall>k::int. 1 / 2 ^ 30 < \<bar>magnus_dewPoint T h - (of_int k + 1 / 2)\<bar>) \<longrightarrow>
      calculateDewPoint mlog T h = Some (round (magnus_dewPoint T h)))
   \<and> magnus_dewPoint T h =
        (237.7 * ((17.27 * T) / (237.7 + T) + ln (h / 100)))
          / (17.27 - ((17.27 * T) / (237.7 + T) + ln (h / 100)))
   \<and> (log_accurate mlog \<longrightarrow> calculateDewPoint mlog 25 60 = Some 17)
   \<and> \<bar>(17 :: int) - 16\<bar> \<le> 1"
proof -
  have 2: "calculateDewPoint mlog' T' h' = Some (round (magnus_dewPoint T' h'))"
    if "- 90 \<le> T'" "T' \<le> 60" "1 \<le> h'" "h' \<le> 100" "log_accurate mlog'"
      and far: "\<forall>k::int. 1 / 2 ^ 30 < \<bar>magnus_dewPoint T' h' - (of_int k + 1 / 2)\<bar>"
    for mlog' T' h'
  proof -
    from calculateDewPoint_value[OF that(1-5)] obtain d where
      d: "calculateDewPoint mlog' T' h' = Some (Math_round d)"
        "\<bar>d - magnus_dewPoint T' h'\<bar> \<le> 1 / 2 ^ 30" by blast
    from d(2) far have "round d = round (magnus_dewPoint T' h')" by (rule round_stable)
    with d(1) show ?thesis by (simp add: Math_round_eq_round)
  qed
  have 1: "\<exists>n. calculateDewPoint mlog T h = Some n
        \<and> \<bar>of_int n - magnus_dewPoint T h\<bar> \<le> 1 / 2 + 1 / 2 ^ 30"
    if "- 90 \<le> T" "T \<le> 60" "1 \<le> h" "h \<le> 100" "log_accurate mlog"
  proof -
    from calculateDewPoint_value[OF that] obtain d where
      d: "calculateDewPoint mlog T h = Some (Math_round d)"
        "\<bar>d - magnus_dewPoint T h\<bar> \<le> 1 / 2 ^ 30" by blast
    have "\<bar>of_int (round d) - d\<bar> \<le> 1 / 2" by (rule of_int_round_abs_le)
    with d(2) have "\<bar>of_int (round d) - magnus_dewPoint T h\<bar> \<le> 1 / 2 + 1 / 2 ^ 30"
      by linarith
    with d(1) show ?thesis by (auto simp: Math_round_eq_round)
  qed
  have 3: "calculateDewPoint mlog 25 60 = Some 17" if ml: "log_accurate mlog"
  proof -
    have far: "\<forall>k::int. 1 / 2 ^ 30 < \<bar>magnus_dewPoint 25 60 - (of_int k + 1 / 2)\<bar>"
      by (rule far_from_ties[where j = 16, OF _ magnus_dewPoint_25_60_bounds]) simp_all
    have "round (magnus_dewPoint 25 60) = 17"
      by (rule round_unique) (use magnus_dewPoint_25_60_bounds in linarith)+
    with 2[OF _ _ _ _ ml far] show ?thesis by simp
  qed
  have 5: "magnus_dewPoint T h =
        (237.7 * ((17.27 * T) / (237.7 + T) + ln (h / 100)))
          / (17.27 - ((17.27 * T) / (237.7 + T) + ln (h / 100)))"
    by (simp add: magnus_dewPoint_def magnus_alpha_def)
  from 1 2 3 5 show ?thesis by simp
qed

theorem calculateDewPoint_magnus_witness:
  "(- 90 :: real) \<le> 25 \<and> (25 :: real) \<le> 60 \<and> (1 :: real) \<le> 60 \<and> (60 :: real) \<le> 100
   \<and> log_accurate Math_log
   \<and> (\<forall>k::int. 1 / 2 ^ 30 < \<bar>magnus_dewPoint 25 60 - (of_int k + 1 / 2)\<bar>)
   \<and> calculateDewPoint Math_log 25 60 = Some 17
   \<and> calculateDewPoint Math_log 25 60 = Some (round (magnus_dewPoint 25 60))"
proof -
  have far: "\<forall>k::int. 1 / 2 ^ 30 < \<bar>magnus_dewPoint 25 60 - (of_int k + 1 / 2)\<bar>"
    by (rule far_from_ties[where j = 16, OF _ magnus_dewPoint_25_60_bounds]) simp_all
  have n: "(- 90 :: real) \<le> 25 \<and> (25 :: real) \<le> 60 \<and> (1 :: real) \<le> 60 \<and> (60 :: real) \<le> 100"
    by simp
  from calculateDewPoint_magnus[of 25 60 Math_log] have
    c2: "- 90 \<le> (25 :: real) \<and> (25 :: real) \<le> 60 \<and> 1 \<le> (60 :: real) \<and> (60 :: real) \<le> 100
          \<and> log_accurate Math_log
          \<and> (\<forall>k::int. 1 / 2 ^ 30 < \<bar>magnus_dewPoint 25 60 - (of_int k + 1 / 2)\<bar>) \<longrightarrow>
        calculateDewPoint Math_log 25 60 = Some (round (magnus_dewPoint 25 60))"
    and c4: "log_accurate Math_log \<longrightarrow> calculateDewPoint Math_log 25 60 = Some 17"
    by blast+
  from c2 n log_accurate_Math_log far
  have r2: "calculateDewPoint Math_log 25 60 = Some (round (magnus_dewPoint 25 60))" by blast
  from c4 log_accurate_Math_log have r4: "calculateDewPoint Math_log 25 60 = Some 17" by blast
  from n log_accurate_Math_log far r2 r4 show ?thesis by blast
qed

text \<open>
  The claim as written fails where the exact value is a tie. For 20.5 degrees and 100
  per cent the exact Magnus value is 20.5, which rounds to 21; the doubles give a value
  just below 20.5 and \<^verbatim>\<open>Math.round\<close> gives 20. The logarithm enters as
  \<^verbatim>\<open>Math.log(1) = +0\<close> only, which every engine returns.
\<close>

theorem calculateDewPoint_tie_counterexample:
  "calculateDewPoint Math_log (41 / 2) 100 = Some 20
   \<and> round (magnus_dewPoint (41 / 2) 100) = 21"
proof
  show "calculateDewPoint Math_log (41 / 2) 100 = Some 20"
    using Math_log_1 by (rule calculateDewPoint_205_100)
  show "round (magnus_dewPoint (41 / 2) 100) = 21"
    by (simp add: magnus_dewPoint_tie round_def)
qed

end
